theory Spec2Isabelle
  imports Main "HOL-Library.Sublist"
begin

section \<open>The System Prompt Influence Analyzer (src/app.py)\<close>

text \<open>
  The program is a Streamlit form around one call to an external text-generation
  service. Everything the program does not compute itself is an input of the model:
  \<^item> the service is an oracle that answers the n-th network call, given the client and
    the keyword arguments of \<^verbatim>\<open>client.messages.create\<close>, by raising or by a response;
    what it raises is an instance of \<^verbatim>\<open>Exception\<close> or another \<^verbatim>\<open>BaseException\<close>;
  \<^item> an uploaded file is given by what \<^verbatim>\<open>getvalue().decode('utf-8')\<close> yields on it;
  \<^item> the process environment is a map from variable names to values.
  Effects are explicit: the world records the network calls issued and the elements
  displayed, both oldest first.
\<close>

subsection \<open>Python values\<close>

text \<open>A Python \<^verbatim>\<open>str\<close>.\<close>

type_synonym str = string

text \<open>
  An instance of a subclass of Python's \<^verbatim>\<open>Exception\<close> (what \<^verbatim>\<open>except Exception\<close>
  catches): the name of its class and \<^verbatim>\<open>str(e)\<close>.
\<close>

datatype py_exception = PyException (exc_type: string) (exc_str: str)

text \<open>
  An instance of a class that derives from \<^verbatim>\<open>BaseException\<close> but not from \<^verbatim>\<open>Exception\<close>
  (KeyboardInterrupt, SystemExit, GeneratorExit): \<^verbatim>\<open>except Exception\<close> does not catch it.
\<close>

datatype py_base_exception = PyBaseException (base_type: string) (base_str: str)

text \<open>
  How a block of statements ends: normally, with a value; by raising an instance of
  \<^verbatim>\<open>Exception\<close>; or by raising another \<^verbatim>\<open>BaseException\<close>.
\<close>

datatype 'a completion = Normal 'a | Raised py_exception | RaisedBase py_base_exception

text \<open>A \<^verbatim>\<open>dict\<close> with string keys, in insertion order.\<close>

type_synonym py_dict = "(string \<times> str) list"

text \<open>\<^verbatim>\<open>d[k]\<close>: the value stored under the key, or KeyError (whose text is the key's repr).\<close>

definition getitem :: "py_dict \<Rightarrow> string \<Rightarrow> py_exception + str" where
  "getitem d k =
     (case map_of d k of
        None \<Rightarrow> Inl (PyException ''KeyError'' ([CHR 0x27] @ k @ [CHR 0x27]))
      | Some v \<Rightarrow> Inr v)"

text \<open>
  \<^verbatim>\<open>a or b\<close> on values that are None or a string: \<open>a\<close> when it is truthy (a non-empty
  string), otherwise \<open>b\<close>.
\<close>

definition py_or :: "str option \<Rightarrow> str option \<Rightarrow> str option" where
  "py_or a b = (case a of None \<Rightarrow> b | Some s \<Rightarrow> if s = [] then b else Some s)"

text \<open>\<^verbatim>\<open>os.getenv(name)\<close>: the variable's value, or None.\<close>

definition getenv :: "(string \<rightharpoonup> str) \<Rightarrow> string \<Rightarrow> str option" where
  "getenv env name = env name"

subsection \<open>The external service\<close>

text \<open>The client object: it holds the credential it was constructed with.\<close>

record anthropic_client =
  api_key :: "str option"

text \<open>The keyword arguments of \<^verbatim>\<open>client.messages.create\<close>.\<close>

record create_kwargs =
  req_model :: str
  req_max_tokens :: int
  req_messages :: "py_dict list"

text \<open>
  A block of \<^verbatim>\<open>response.content\<close>: a text block has the attribute \<^verbatim>\<open>text\<close>; a block
  of any other class (given by its class name) has not.
\<close>

datatype content_block = TextBlock str | OtherBlock string

record response =
  resp_content :: "content_block list"
  resp_model :: str

text \<open>
  What a call of \<^verbatim>\<open>client.messages.create\<close> does: it raises an instance of
  \<^verbatim>\<open>Exception\<close> (a rejected credential, a network fault, a response that does not
  validate), it is ended by another \<^verbatim>\<open>BaseException\<close> (an interrupt while it blocks), or
  it returns a response.
\<close>

datatype outcome = Raises py_exception | RaisesBase py_base_exception | Returns response

text \<open>
  The service answers a call by its number (how many calls were issued before it), so
  it may answer the same request differently each time.
\<close>

type_synonym service = "nat \<Rightarrow> anthropic_client \<Rightarrow> create_kwargs \<Rightarrow> outcome"

subsection \<open>The world: network calls and displayed elements\<close>

datatype ui_event =
    Title str
  | SidebarHeader str
  | SidebarMarkdown str
  | Header str
  | Subheader str
  | Warning str
  | Error str
  | Info str
  | TextArea str str int
  | Write str

record world =
  calls :: "(anthropic_client \<times> create_kwargs) list"
  ui :: "ui_event list"

text \<open>A Streamlit display call appends its element to the page.\<close>

definition st :: "ui_event \<Rightarrow> world \<Rightarrow> world" where
  "st e w = w\<lparr>ui := ui w @ [e]\<rparr>"

text \<open>One blocking network call: it is recorded, and the service's answer is its outcome.\<close>

definition messages_create ::
  "service \<Rightarrow> anthropic_client \<Rightarrow> create_kwargs \<Rightarrow> world \<Rightarrow> outcome \<times> world" where
  "messages_create svc c kw w =
     (svc (length (calls w)) c kw, w\<lparr>calls := calls w @ [(c, kw)]\<rparr>)"

subsection \<open>SystemPromptInfluenceAnalyzer\<close>

record analyzer =
  client :: anthropic_client

text \<open>
  \<^verbatim>\<open>__init__\<close> (lines 6-15). Constructing the client stores the credential; the
  construction itself is taken not to raise.
\<close>

definition SystemPromptInfluenceAnalyzer ::
  "(string \<rightharpoonup> str) \<Rightarrow> str option \<Rightarrow> analyzer" where
  "SystemPromptInfluenceAnalyzer env key =
     \<lparr>client = \<lparr>api_key = py_or key (getenv env ''ANTHROPIC_API_KEY'')\<rparr>\<rparr>"

text \<open>The f-string of lines 35-65: a string is formatted as itself.\<close>

definition analysis_prompt :: "str \<Rightarrow> str \<Rightarrow> str" where
  "analysis_prompt system_prompt conversation_log =
     ''\<newline>'' @
     ''        You are an expert in system prompt interpretability and discourse analysis.\<newline>'' @
     ''\<newline>'' @
     ''        Task: Carefully analyze the following system prompt and conversation log.\<newline>'' @
     ''        Identify which specific segments of the system prompt directly influenced\<newline>'' @
     ''        the agent's responses.\<newline>'' @
     ''\<newline>'' @
     ''        System Prompt:\<newline>'' @
     ''        '' @
     system_prompt @
     ''\<newline>'' @
     ''\<newline>'' @
     ''        Conversation Log:\<newline>'' @
     ''        '' @
     conversation_log @
     ''\<newline>'' @
     ''\<newline>'' @
     ''        For EACH agent response, provide:\<newline>'' @
     ''        1. Relevant System Prompt Segments (quote exact text)\<newline>'' @
     ''        2. Influence Score (0-1.0)\<newline>'' @
     ''        3. Specific Evidence of Influence\<newline>'' @
     ''        4. Explanation of Semantic Connection\<newline>'' @
     ''\<newline>'' @
     ''        Response Format:\<newline>'' @
     ''        ```\<newline>'' @
     ''        Response 1:\<newline>'' @
     ''        - Relevant Segments: [list of segments]\<newline>'' @
     ''        - Influence Score: X.XX\<newline>'' @
     ''        - Evidence: [direct quote mapping]\<newline>'' @
     ''        - Explanation: [semantic connection details]\<newline>'' @
     ''        ```\<newline>'' @
     ''\<newline>'' @
     ''        Provide a comprehensive, analytical breakdown that shows\<newline>'' @
     ''        how the system prompt guides the agent's communication strategy.\<newline>'' @
     ''        ''"

text \<open>The keyword arguments of lines 70-77.\<close>

definition kwargs :: "str \<Rightarrow> create_kwargs" where
  "kwargs prompt =
     \<lparr>req_model = ''claude-3-opus-20240229'',
      req_max_tokens = 4000,
      req_messages = [[(''role'', ''user''), (''content'', prompt)]]\<rparr>"

text \<open>
  Lines 81-86, on the response of the call: \<^verbatim>\<open>response.content[0]\<close> raises IndexError
  on an empty list, \<^verbatim>\<open>.text\<close> raises AttributeError on a block without it.
\<close>

definition extract_analysis :: "response \<Rightarrow> py_exception + py_dict" where
  "extract_analysis r =
     (case resp_content r of
        [] \<Rightarrow> Inl (PyException ''IndexError'' ''list index out of range'')
      | TextBlock full_analysis # _ \<Rightarrow>
          Inr [(''raw_analysis'', full_analysis), (''model_used'', resp_model r)]
      | OtherBlock cls # _ \<Rightarrow>
          Inl (PyException ''AttributeError''
                 ([CHR 0x27] @ cls @ [CHR 0x27] @ '' object has no attribute '' @
                  [CHR 0x27] @ ''text'' @ [CHR 0x27])))"

text \<open>The body of the \<^verbatim>\<open>try\<close> (lines 68-86): the call, then the extraction.\<close>

definition try_body ::
  "service \<Rightarrow> analyzer \<Rightarrow> str \<Rightarrow> world \<Rightarrow> py_dict completion \<times> world" where
  "try_body svc self prompt w =
     (case messages_create svc (client self) (kwargs prompt) w of
        (Raises e, w') \<Rightarrow> (Raised e, w')
      | (RaisesBase b, w') \<Rightarrow> (RaisedBase b, w')
      | (Returns r, w') \<Rightarrow>
          (case extract_analysis r of
             Inl e \<Rightarrow> (Raised e, w')
           | Inr d \<Rightarrow> (Normal d, w')))"

text \<open>
  \<^verbatim>\<open>analyze_system_prompt_influence\<close> (lines 17-90). The handler of line 88 catches
  the instances of \<^verbatim>\<open>Exception\<close> only. The result is \<open>Inl b\<close> when the exception \<open>b\<close>
  leaves the method, \<open>Inr None\<close> when it returns None and \<open>Inr (Some d)\<close> when it returns
  the dict \<open>d\<close>.
\<close>

definition analyze_system_prompt_influence ::
  "service \<Rightarrow> analyzer \<Rightarrow> str \<Rightarrow> str \<Rightarrow> bool \<Rightarrow> world
     \<Rightarrow> (py_base_exception + py_dict option) \<times> world" where
  "analyze_system_prompt_influence svc self system_prompt conversation_log verbose w =
     (case try_body svc self (analysis_prompt system_prompt conversation_log) w of
        (Normal d, w') \<Rightarrow> (Inr (Some d), w')
      | (Raised e, w') \<Rightarrow> (Inr None, st (Error (''Error in analysis: '' @ exc_str e)) w')
      | (RaisedBase b, w') \<Rightarrow> (Inl b, w'))"

subsection \<open>The form\<close>

text \<open>
  An uploaded file, given by what \<^verbatim>\<open>getvalue().decode('utf-8')\<close> yields on it: the
  decoded text, or the exception that the codec raises (a UnicodeDecodeError, an
  instance of \<^verbatim>\<open>Exception\<close>). The object itself is truthy.
\<close>

datatype uploaded_file = UploadedFile (decoded: "py_exception + str")

text \<open>
  What the widgets return in one run of the script: the text of the credential field
  (empty when left blank), the two uploads (None when no file was chosen) and whether
  the button was clicked.
\<close>

record form =
  api_key_field :: str
  system_prompt_file :: "uploaded_file option"
  conversation_log_file :: "uploaded_file option"
  button :: bool

text \<open>Lines 113-114: the system prompt is decoded first.\<close>

definition read_files :: "uploaded_file \<Rightarrow> uploaded_file \<Rightarrow> py_exception + str \<times> str" where
  "read_files spf clf =
     (case decoded spf of
        Inl e \<Rightarrow> Inl e
      | Inr system_prompt \<Rightarrow>
          (case decoded clf of
             Inl e \<Rightarrow> Inl e
           | Inr conversation_log \<Rightarrow> Inr (system_prompt, conversation_log)))"

text \<open>
  Lines 138-145, for a truthy result: the exception raised on the way, if any, and the
  world reached. The arguments of a display call are evaluated before it displays.
\<close>

definition show_results :: "py_dict \<Rightarrow> world \<Rightarrow> py_exception option \<times> world" where
  "show_results influence_analysis w =
     (let w1 = st (Header ''Analysis Results'') w;
          w2 = st (Subheader ''Raw Analysis'') w1
      in case getitem influence_analysis ''raw_analysis'' of
           Inl e \<Rightarrow> (Some e, w2)
         | Inr raw \<Rightarrow>
             (let w3 = st (TextArea ''System Prompt Influence Analysis'' raw 400) w2;
                  w4 = st (Subheader ''Model Information'') w3
              in case getitem influence_analysis ''model_used'' of
                   Inl e \<Rightarrow> (Some e, w4)
                 | Inr m \<Rightarrow> (None, st (Write (''Model Used: '' @ m)) w4)))"

text \<open>
  The body of the \<^verbatim>\<open>try\<close> of lines 125-145. The analyzer is built from the credential
  of the field, and \<^verbatim>\<open>verbose\<close> keeps its default. None and the empty dict are falsy.
  An exception that leaves the requester ends the body.
\<close>

definition perform_analysis ::
  "service \<Rightarrow> (string \<rightharpoonup> str) \<Rightarrow> str \<Rightarrow> str \<Rightarrow> str \<Rightarrow> world
     \<Rightarrow> unit completion \<times> world" where
  "perform_analysis svc env key system_prompt conversation_log w =
     (let analyzer = SystemPromptInfluenceAnalyzer env (Some key);
          w1 = st (Info ''Analyzing system prompt influence... This may take a few moments.'') w
      in case analyze_system_prompt_influence svc analyzer system_prompt conversation_log True w1 of
           (Inl b, w2) \<Rightarrow> (RaisedBase b, w2)
         | (Inr None, w2) \<Rightarrow> (Normal (), w2)
         | (Inr (Some d), w2) \<Rightarrow>
             if d = [] then (Normal (), w2)
             else
               (case show_results d w2 of
                  (None, w3) \<Rightarrow> (Normal (), w3)
                | (Some e, w3) \<Rightarrow> (Raised e, w3)))"

text \<open>
  How the block under the button ends: by \<^verbatim>\<open>return\<close>, by reaching its end, or by an
  exception that the handler of line 146 does not catch.
\<close>

datatype control = Returned world | Completed world | Propagated py_base_exception world

text \<open>Lines 106-147. The handler of line 146 catches the instances of \<^verbatim>\<open>Exception\<close> only.\<close>

definition button_block :: "service \<Rightarrow> (string \<rightharpoonup> str) \<Rightarrow> form \<Rightarrow> world \<Rightarrow> control" where
  "button_block svc env f w =
     (case (system_prompt_file f, conversation_log_file f) of
        (Some spf, Some clf) \<Rightarrow>
          (case read_files spf clf of
             Inl e \<Rightarrow> Returned (st (Error (''Error reading files: '' @ exc_str e)) w)
           | Inr (system_prompt, conversation_log) \<Rightarrow>
               if api_key_field f = []
               then Returned (st (Warning ''Please enter your Anthropic API Key in the sidebar.'') w)
               else
                 (case perform_analysis svc env (api_key_field f) system_prompt conversation_log w of
                    (Normal _, w') \<Rightarrow> Completed w'
                  | (Raised e, w') \<Rightarrow>
                      Completed (st (Error (''An error occurred during analysis: '' @ exc_str e)) w')
                  | (RaisedBase b, w') \<Rightarrow> Propagated b w'))
      | _ \<Rightarrow>
          Returned (st (Warning ''Please upload both system prompt and conversation log files.'') w))"

text \<open>The markdown of lines 150-161.\<close>

definition instructions :: str where
  "instructions =
     ''\<newline>'' @
     ''    ### Instructions\<newline>'' @
     ''    1. Enter your Anthropic API Key\<newline>'' @
     ''    2. Upload system prompt text file\<newline>'' @
     ''    3. Upload conversation log text file\<newline>'' @
     ''    4. Click '' @ [CHR 0x22] @ ''Analyze System Prompt Influence'' @ [CHR 0x22] @ ''\<newline>'' @
     ''\<newline>'' @
     ''    #### File Format Requirements\<newline>'' @
     ''    - Text files (.txt)\<newline>'' @
     ''    - System prompt should describe the AI's behavior\<newline>'' @
     ''    - Conversation log should include full interaction\<newline>'' @
     ''    ''"

text \<open>
  \<^verbatim>\<open>main\<close> (lines 92-161): one run of the script on what the widgets return. After a
  \<^verbatim>\<open>return\<close> under the button the sidebar instructions are not reached. The result is
  the exception that leaves \<^verbatim>\<open>main\<close>, if any, and the world reached.
\<close>

definition main ::
  "service \<Rightarrow> (string \<rightharpoonup> str) \<Rightarrow> form \<Rightarrow> world \<Rightarrow> py_base_exception option \<times> world" where
  "main svc env f w =
     (let w1 = st (Title ''System Prompt Influence Analyzer'') w;
          w2 = st (SidebarHeader ''Anthropic API Configuration'') w1;
          w3 = st (Header ''Upload Files'') w2
      in case (if button f then button_block svc env f w3 else Completed w3) of
           Returned w' \<Rightarrow> (None, w')
         | Completed w' \<Rightarrow> (None, st (SidebarMarkdown instructions) w')
         | Propagated b w' \<Rightarrow> (Some b, w'))"

subsection \<open>Example inputs\<close>

text \<open>
  Services and a world for the concrete runs below: a service that always answers, one
  that always fails, one whose answer changes from the first call to the next, one
  whose call is interrupted from the keyboard, and one that answers with an empty
  content list; and the world before anything happened.
\<close>

definition service_up :: service where
  "service_up n c kw =
     Returns \<lparr>resp_content = [TextBlock ''Response 1: no influence found.''],
              resp_model = ''claude-3-opus-20240229''\<rparr>"

definition service_down :: service where
  "service_down n c kw = Raises (PyException ''APIConnectionError'' ''Connection error.'')"

definition service_changing :: service where
  "service_changing n c kw =
     (if n = 0 then Returns \<lparr>resp_content = [TextBlock ''first''], resp_model = ''m''\<rparr>
      else Returns \<lparr>resp_content = [TextBlock ''second''], resp_model = ''m''\<rparr>)"

definition service_interrupted :: service where
  "service_interrupted n c kw = RaisesBase (PyBaseException ''KeyboardInterrupt'' [])"

definition service_empty :: service where
  "service_empty n c kw = Returns \<lparr>resp_content = [], resp_model = ''m''\<rparr>"

definition fresh :: world where
  "fresh = \<lparr>calls = [], ui = []\<rparr>"

text \<open>
  An upload that is not UTF-8 (with the message of CPython's codec for the single byte
  \<^verbatim>\<open>0xff\<close>), an environment without the variable and one that sets it.
\<close>

definition undecodable :: uploaded_file where
  "undecodable =
     UploadedFile (Inl (PyException ''UnicodeDecodeError''
       ([CHR 0x27] @ ''utf-8'' @ [CHR 0x27] @
        '' codec can't decode byte 0xff in position 0: invalid start byte'')))"

definition env_unset :: "string \<rightharpoonup> str" where
  "env_unset = Map.empty"

definition env_set :: "string \<rightharpoonup> str" where
  "env_set = [''ANTHROPIC_API_KEY'' \<mapsto> ''env-key'']"

section \<open>Auxiliary facts\<close>

text \<open>The definitions to unfold when the program is run on a concrete input.\<close>

lemmas run_defs = main_def button_block_def read_files_def perform_analysis_def
  analyze_system_prompt_influence_def try_body_def messages_create_def extract_analysis_def
  show_results_def getitem_def st_def SystemPromptInfluenceAnalyzer_def py_or_def getenv_def
  Let_def fresh_def env_unset_def env_set_def

text \<open>The requester, by the answer of the service to its call.\<close>

lemma analyze_eq:
  "analyze_system_prompt_influence svc self sp cl v w =
     (case svc (length (calls w)) (client self) (kwargs (analysis_prompt sp cl)) of
        Raises e \<Rightarrow>
          (Inr None, w\<lparr>calls := calls w @ [(client self, kwargs (analysis_prompt sp cl))],
                        ui := ui w @ [Error (''Error in analysis: '' @ exc_str e)]\<rparr>)
      | RaisesBase b \<Rightarrow>
          (Inl b, w\<lparr>calls := calls w @ [(client self, kwargs (analysis_prompt sp cl))]\<rparr>)
      | Returns r \<Rightarrow>
          (case extract_analysis r of
             Inl e \<Rightarrow>
               (Inr None, w\<lparr>calls := calls w @ [(client self, kwargs (analysis_prompt sp cl))],
                             ui := ui w @ [Error (''Error in analysis: '' @ exc_str e)]\<rparr>)
           | Inr d \<Rightarrow>
               (Inr (Some d), w\<lparr>calls := calls w @ [(client self, kwargs (analysis_prompt sp cl))]\<rparr>)))"
  by (simp add: analyze_system_prompt_influence_def try_body_def messages_create_def st_def
      split: outcome.splits sum.splits)

lemma analyze_calls:
  "calls (snd (analyze_system_prompt_influence svc self sp cl v w)) =
     calls w @ [(client self, kwargs (analysis_prompt sp cl))]"
  by (simp add: analyze_eq split: outcome.splits sum.splits)

lemma extract_analysis_keys:
  "extract_analysis r = Inr d \<Longrightarrow> map fst d = [''raw_analysis'', ''model_used'']"
  by (auto simp: extract_analysis_def split: list.splits content_block.splits)

text \<open>The analysis under the button, for a non-empty credential.\<close>

lemma init_client:
  "key \<noteq> [] \<Longrightarrow> client (SystemPromptInfluenceAnalyzer env (Some key)) = \<lparr>api_key = Some key\<rparr>"
  by (simp add: SystemPromptInfluenceAnalyzer_def py_or_def)

lemma extract_analysis_text:
  "resp_content r = TextBlock t # bs \<Longrightarrow>
   extract_analysis r = Inr [(''raw_analysis'', t), (''model_used'', resp_model r)]"
  by (simp add: extract_analysis_def)

lemma extract_analysis_cases:
  "(\<exists>e. extract_analysis r = Inl e) \<or> (\<exists>t bs. resp_content r = TextBlock t # bs)"
  by (auto simp: extract_analysis_def split: list.splits content_block.splits)

lemma show_results_extracted:
  "show_results [(''raw_analysis'', t), (''model_used'', m)] w =
     (None, w\<lparr>ui := ui w @
        [Header ''Analysis Results'', Subheader ''Raw Analysis'',
         TextArea ''System Prompt Influence Analysis'' t 400,
         Subheader ''Model Information'', Write (''Model Used: '' @ m)]\<rparr>)"
  by (simp add: show_results_def getitem_def st_def Let_def)

lemma perform_analysis_raises:
  assumes "key \<noteq> []"
    and "svc (length (calls w)) \<lparr>api_key = Some key\<rparr> (kwargs (analysis_prompt sp cl)) = Raises e"
  shows "perform_analysis svc env key sp cl w =
     (Normal (), w\<lparr>calls := calls w @ [(\<lparr>api_key = Some key\<rparr>, kwargs (analysis_prompt sp cl))],
               ui := ui w @
                 [Info ''Analyzing system prompt influence... This may take a few moments.'',
                  Error (''Error in analysis: '' @ exc_str e)]\<rparr>)"
  using assms by (simp add: perform_analysis_def analyze_eq init_client st_def)

lemma perform_analysis_no_text:
  assumes "key \<noteq> []"
    and "svc (length (calls w)) \<lparr>api_key = Some key\<rparr> (kwargs (analysis_prompt sp cl)) = Returns r"
    and "extract_analysis r = Inl e"
  shows "perform_analysis svc env key sp cl w =
     (Normal (), w\<lparr>calls := calls w @ [(\<lparr>api_key = Some key\<rparr>, kwargs (analysis_prompt sp cl))],
               ui := ui w @
                 [Info ''Analyzing system prompt influence... This may take a few moments.'',
                  Error (''Error in analysis: '' @ exc_str e)]\<rparr>)"
  using assms by (simp add: perform_analysis_def analyze_eq init_client st_def)

lemma perform_analysis_text:
  assumes "key \<noteq> []"
    and "svc (length (calls w)) \<lparr>api_key = Some key\<rparr> (kwargs (analysis_prompt sp cl)) = Returns r"
    and "resp_content r = TextBlock t # bs"
  shows "perform_analysis svc env key sp cl w =
     (Normal (), w\<lparr>calls := calls w @ [(\<lparr>api_key = Some key\<rparr>, kwargs (analysis_prompt sp cl))],
               ui := ui w @
                 [Info ''Analyzing system prompt influence... This may take a few moments.'',
                  Header ''Analysis Results'', Subheader ''Raw Analysis'',
                  TextArea ''System Prompt Influence Analysis'' t 400,
                  Subheader ''Model Information'',
                  Write (''Model Used: '' @ resp_model r)]\<rparr>)"
  using assms
  by (simp add: perform_analysis_def analyze_eq init_client st_def extract_analysis_text
      show_results_extracted)

lemma perform_analysis_interrupted:
  assumes "key \<noteq> []"
    and "svc (length (calls w)) \<lparr>api_key = Some key\<rparr> (kwargs (analysis_prompt sp cl)) =
           RaisesBase b"
  shows "perform_analysis svc env key sp cl w =
     (RaisedBase b,
      w\<lparr>calls := calls w @ [(\<lparr>api_key = Some key\<rparr>, kwargs (analysis_prompt sp cl))],
        ui := ui w @
          [Info ''Analyzing system prompt influence... This may take a few moments.'']\<rparr>)"
  using assms by (simp add: perform_analysis_def analyze_eq init_client st_def)

lemma perform_analysis_shape:
  assumes "key \<noteq> []"
  shows "\<exists>c es. perform_analysis svc env key sp cl w =
     (c, w\<lparr>calls := calls w @ [(\<lparr>api_key = Some key\<rparr>, kwargs (analysis_prompt sp cl))],
          ui := ui w @ es\<rparr>) \<and> (\<forall>e. c \<noteq> Raised e) \<and> (\<forall>m. Warning m \<notin> set es)"
proof (cases "svc (length (calls w)) \<lparr>api_key = Some key\<rparr> (kwargs (analysis_prompt sp cl))")
  case (Raises e)
  with assms have "perform_analysis svc env key sp cl w =
     (Normal (), w\<lparr>calls := calls w @ [(\<lparr>api_key = Some key\<rparr>, kwargs (analysis_prompt sp cl))],
               ui := ui w @
                 [Info ''Analyzing system prompt influence... This may take a few moments.'',
                  Error (''Error in analysis: '' @ exc_str e)]\<rparr>)"
    by (rule perform_analysis_raises)
  then show ?thesis by (intro exI conjI, assumption) simp_all
next
  case (RaisesBase b)
  with assms have "perform_analysis svc env key sp cl w =
     (RaisedBase b,
      w\<lparr>calls := calls w @ [(\<lparr>api_key = Some key\<rparr>, kwargs (analysis_prompt sp cl))],
        ui := ui w @
          [Info ''Analyzing system prompt influence... This may take a few moments.'']\<rparr>)"
    by (rule perform_analysis_interrupted)
  then show ?thesis by (intro exI conjI, assumption) simp_all
next
  case (Returns r)
  from extract_analysis_cases [of r] show ?thesis
  proof (elim disjE exE)
    fix e assume "extract_analysis r = Inl e"
    with assms Returns have "perform_analysis svc env key sp cl w =
     (Normal (), w\<lparr>calls := calls w @ [(\<lparr>api_key = Some key\<rparr>, kwargs (analysis_prompt sp cl))],
               ui := ui w @
                 [Info ''Analyzing system prompt influence... This may take a few moments.'',
                  Error (''Error in analysis: '' @ exc_str e)]\<rparr>)"
      by (rule perform_analysis_no_text)
    then show ?thesis by (intro exI conjI, assumption) simp_all
  next
    fix t bs assume "resp_content r = TextBlock t # bs"
    with assms Returns have "perform_analysis svc env key sp cl w =
     (Normal (), w\<lparr>calls := calls w @ [(\<lparr>api_key = Some key\<rparr>, kwargs (analysis_prompt sp cl))],
               ui := ui w @
                 [Info ''Analyzing system prompt influence... This may take a few moments.'',
                  Header ''Analysis Results'', Subheader ''Raw Analysis'',
                  TextArea ''System Prompt Influence Analysis'' t 400,
                  Subheader ''Model Information'',
                  Write (''Model Used: '' @ resp_model r)]\<rparr>)"
      by (rule perform_analysis_text)
    then show ?thesis by (intro exI conjI, assumption) simp_all
  qed
qed

text \<open>The runs of the script, path by path.\<close>

lemma main_not_clicked:
  "\<not> button f \<Longrightarrow>
   main svc env f w = (None, w\<lparr>ui := ui w @
     [Title ''System Prompt Influence Analyzer'', SidebarHeader ''Anthropic API Configuration'',
      Header ''Upload Files'', SidebarMarkdown instructions]\<rparr>)"
  by (simp add: main_def st_def)

lemma main_missing_upload:
  "button f \<Longrightarrow> system_prompt_file f = None \<or> conversation_log_file f = None \<Longrightarrow>
   main svc env f w = (None, w\<lparr>ui := ui w @
     [Title ''System Prompt Influence Analyzer'', SidebarHeader ''Anthropic API Configuration'',
      Header ''Upload Files'',
      Warning ''Please upload both system prompt and conversation log files.'']\<rparr>)"
  by (auto simp add: main_def button_block_def st_def Let_def split: option.splits)

lemma main_decode_error:
  "button f \<Longrightarrow> system_prompt_file f = Some spf \<Longrightarrow> conversation_log_file f = Some clf \<Longrightarrow>
   read_files spf clf = Inl e \<Longrightarrow>
   main svc env f w = (None, w\<lparr>ui := ui w @
     [Title ''System Prompt Influence Analyzer'', SidebarHeader ''Anthropic API Configuration'',
      Header ''Upload Files'', Error (''Error reading files: '' @ exc_str e)]\<rparr>)"
  by (simp add: main_def button_block_def st_def)

lemma main_blank_key:
  "button f \<Longrightarrow> system_prompt_file f = Some spf \<Longrightarrow> conversation_log_file f = Some clf \<Longrightarrow>
   read_files spf clf = Inr (sp, cl) \<Longrightarrow> api_key_field f = [] \<Longrightarrow>
   main svc env f w = (None, w\<lparr>ui := ui w @
     [Title ''System Prompt Influence Analyzer'', SidebarHeader ''Anthropic API Configuration'',
      Header ''Upload Files'',
      Warning ''Please enter your Anthropic API Key in the sidebar.'']\<rparr>)"
  by (simp add: main_def button_block_def st_def)

lemma main_analysis:
  "button f \<Longrightarrow> system_prompt_file f = Some spf \<Longrightarrow> conversation_log_file f = Some clf \<Longrightarrow>
   read_files spf clf = Inr (sp, cl) \<Longrightarrow> api_key_field f \<noteq> [] \<Longrightarrow>
   perform_analysis svc env (api_key_field f) sp cl
     (w\<lparr>ui := ui w @
        [Title ''System Prompt Influence Analyzer'', SidebarHeader ''Anthropic API Configuration'',
         Header ''Upload Files'']\<rparr>) = (Normal (), w') \<Longrightarrow>
   main svc env f w = (None, w'\<lparr>ui := ui w' @ [SidebarMarkdown instructions]\<rparr>)"
  by (simp add: main_def button_block_def st_def)

lemma main_interrupted:
  "button f \<Longrightarrow> system_prompt_file f = Some spf \<Longrightarrow> conversation_log_file f = Some clf \<Longrightarrow>
   read_files spf clf = Inr (sp, cl) \<Longrightarrow> api_key_field f \<noteq> [] \<Longrightarrow>
   perform_analysis svc env (api_key_field f) sp cl
     (w\<lparr>ui := ui w @
        [Title ''System Prompt Influence Analyzer'', SidebarHeader ''Anthropic API Configuration'',
         Header ''Upload Files'']\<rparr>) = (RaisedBase b, w') \<Longrightarrow>
   main svc env f w = (Some b, w')"
  by (simp add: main_def button_block_def st_def)

lemma read_files_decoded:
  "read_files (UploadedFile (Inr sp)) (UploadedFile (Inr cl)) = Inr (sp, cl)"
  by (simp add: read_files_def)

lemma read_files_Inr:
  "read_files spf clf = Inr (sp, cl) \<longleftrightarrow>
     spf = UploadedFile (Inr sp) \<and> clf = UploadedFile (Inr cl)"
  by (cases spf; cases clf) (auto simp: read_files_def split: sum.splits)

lemma main_analysis_shape:
  assumes "button f"
    and "system_prompt_file f = Some (UploadedFile (Inr sp))"
    and "conversation_log_file f = Some (UploadedFile (Inr cl))"
    and "api_key_field f \<noteq> []"
  shows "\<exists>x es. main svc env f w =
           (x, w\<lparr>calls := calls w @ [(\<lparr>api_key = Some (api_key_field f)\<rparr>,
                                       kwargs (analysis_prompt sp cl))],
                 ui := ui w @ es\<rparr>) \<and> (\<forall>m. Warning m \<notin> set es)"
proof -
  let ?w3 = "w\<lparr>ui := ui w @
        [Title ''System Prompt Influence Analyzer'', SidebarHeader ''Anthropic API Configuration'',
         Header ''Upload Files'']\<rparr>"
  from perform_analysis_shape [OF assms(4), of svc env sp cl ?w3]
  obtain c es where run: "perform_analysis svc env (api_key_field f) sp cl ?w3 =
     (c, ?w3\<lparr>calls := calls ?w3 @ [(\<lparr>api_key = Some (api_key_field f)\<rparr>,
                                     kwargs (analysis_prompt sp cl))],
             ui := ui ?w3 @ es\<rparr>)" and c: "\<forall>e. c \<noteq> Raised e"
    and es: "\<forall>m. Warning m \<notin> set es"
    by blast
  show ?thesis
  proof (cases c)
    case (Normal u)
    have "main svc env f w = (None, (snd (perform_analysis svc env (api_key_field f) sp cl ?w3))
        \<lparr>ui := ui (snd (perform_analysis svc env (api_key_field f) sp cl ?w3)) @
                [SidebarMarkdown instructions]\<rparr>)"
      using assms(1-3) read_files_decoded assms(4)
      by (rule main_analysis) (simp add: run Normal)
    then have "main svc env f w =
           (None, w\<lparr>calls := calls w @ [(\<lparr>api_key = Some (api_key_field f)\<rparr>,
                                          kwargs (analysis_prompt sp cl))],
                    ui := ui w @
                      ([Title ''System Prompt Influence Analyzer'',
                        SidebarHeader ''Anthropic API Configuration'',
                        Header ''Upload Files''] @ es @ [SidebarMarkdown instructions])\<rparr>)"
      by (simp add: run)
    moreover have "\<forall>m. Warning m \<notin> set ([Title ''System Prompt Influence Analyzer'',
                 SidebarHeader ''Anthropic API Configuration'', Header ''Upload Files''] @ es @
                [SidebarMarkdown instructions])"
      using es by simp
    ultimately show ?thesis by blast
  next
    case (Raised e)
    with c show ?thesis by simp
  next
    case (RaisedBase b)
    have "main svc env f w = (Some b, snd (perform_analysis svc env (api_key_field f) sp cl ?w3))"
      using assms(1-3) read_files_decoded assms(4)
      by (rule main_interrupted) (simp add: run RaisedBase)
    then have "main svc env f w =
           (Some b, w\<lparr>calls := calls w @ [(\<lparr>api_key = Some (api_key_field f)\<rparr>,
                                            kwargs (analysis_prompt sp cl))],
                      ui := ui w @
                        ([Title ''System Prompt Influence Analyzer'',
                          SidebarHeader ''Anthropic API Configuration'',
                          Header ''Upload Files''] @ es)\<rparr>)"
      by (simp add: run)
    moreover have "\<forall>m. Warning m \<notin> set ([Title ''System Prompt Influence Analyzer'',
                 SidebarHeader ''Anthropic API Configuration'', Header ''Upload Files''] @ es)"
      using es by simp
    ultimately show ?thesis by blast
  qed
qed

section \<open>Properties of the requester\<close>

text \<open>
  Claim C1. The prompt built from a system prompt and a conversation log contains both
  texts as contiguous, unchanged substrings, whatever the texts are (in particular when
  both are non-empty), and this prompt is the content of the one message of the request
  that the requester issues.
\<close>

theorem C1_prompt_embeds_inputs:
  "sublist system_prompt (analysis_prompt system_prompt conversation_log) \<and>
   sublist conversation_log (analysis_prompt system_prompt conversation_log) \<and>
   map (req_messages \<circ> snd)
     (drop (length (calls w))
        (calls (snd (analyze_system_prompt_influence svc self system_prompt conversation_log
           verbose w)))) =
     [[[(''role'', ''user''),
        (''content'', analysis_prompt system_prompt conversation_log)]]]"
proof (intro conjI)
  show "sublist system_prompt (analysis_prompt system_prompt conversation_log)"
    unfolding analysis_prompt_def sublist_def by (metis append.assoc)
  show "sublist conversation_log (analysis_prompt system_prompt conversation_log)"
    unfolding analysis_prompt_def sublist_def by (metis append.assoc)
  show "map (req_messages \<circ> snd)
     (drop (length (calls w))
        (calls (snd (analyze_system_prompt_influence svc self system_prompt conversation_log
           verbose w)))) =
     [[[(''role'', ''user''),
        (''content'', analysis_prompt system_prompt conversation_log)]]]"
    by (simp add: analyze_calls kwargs_def)
qed

text \<open>The example scenario of the specification.\<close>

theorem C1_witness:
  "sublist ''You are a helpful assistant.''
     (analysis_prompt ''You are a helpful assistant.'' ''User: Hi'') \<and>
   sublist ''User: Hi'' (analysis_prompt ''You are a helpful assistant.'' ''User: Hi'')"
  using C1_prompt_embeds_inputs [of "''You are a helpful assistant.''" "''User: Hi''"]
  by blast

text \<open>
  Claim C7. Whatever the inputs, the service's answer and the history, an invocation of
  the requester issues one request: model \<^verbatim>\<open>claude-3-opus-20240229\<close>, at most 4000 output
  tokens, and a single message of role \<^verbatim>\<open>user\<close> whose content is the whole prompt.
\<close>

theorem C7_fixed_request:
  "calls (snd (analyze_system_prompt_influence svc self system_prompt conversation_log verbose w)) =
     calls w @
     [(client self,
       \<lparr>req_model = ''claude-3-opus-20240229'',
        req_max_tokens = 4000,
        req_messages =
          [[(''role'', ''user''),
            (''content'', analysis_prompt system_prompt conversation_log)]]\<rparr>)]"
  by (simp add: analyze_calls kwargs_def)

text \<open>
  Claim C9. The parameter \<^verbatim>\<open>verbose\<close> has no effect: with it set and with it unset the
  method returns the same result and leaves the same world (the same request issued, the
  same elements displayed), for every service.
\<close>

theorem C9_verbose_ignored:
  "analyze_system_prompt_influence svc self system_prompt conversation_log True w =
   analyze_system_prompt_influence svc self system_prompt conversation_log False w"
  by (simp add: analyze_system_prompt_influence_def)

text \<open>
  Claim C10 says that no exception ever leaves \<^verbatim>\<open>analyze_system_prompt_influence\<close>.
  The handler of line 88 is \<^verbatim>\<open>except Exception\<close>: a KeyboardInterrupt that ends the
  blocking call is not an instance of \<^verbatim>\<open>Exception\<close> and leaves the method.
\<close>

theorem C10_counterexample:
  "fst (analyze_system_prompt_influence service_interrupted
          \<lparr>client = \<lparr>api_key = Some ''valid-key''\<rparr>\<rparr>
          ''You are a helpful assistant.'' ''User: Hi'' True fresh) =
     Inl (PyBaseException ''KeyboardInterrupt'' [])"
  by (simp add: run_defs service_interrupted_def)

text \<open>
  Claim C10, amended. No instance of \<^verbatim>\<open>Exception\<close> leaves the method: for every input,
  when the call returns a response (also one whose content list is empty, or whose
  first block has no text) or raises an instance of \<^verbatim>\<open>Exception\<close>, the method returns
  None or a dict whose keys are exactly \<^verbatim>\<open>raw_analysis\<close> and \<^verbatim>\<open>model_used\<close>. Only a
  \<^verbatim>\<open>BaseException\<close> outside \<^verbatim>\<open>Exception\<close> that ends the call leaves the method, and it
  leaves unchanged.
\<close>

theorem C10_only_base_exceptions_escape:
  "(case svc (length (calls w)) (client self)
           (kwargs (analysis_prompt system_prompt conversation_log)) of
      RaisesBase b \<Rightarrow>
        fst (analyze_system_prompt_influence svc self system_prompt conversation_log verbose w)
          = Inl b
    | _ \<Rightarrow>
        (\<exists>r. fst (analyze_system_prompt_influence svc self system_prompt conversation_log
                    verbose w) = Inr r \<and>
             (r = None \<or>
              (\<exists>d. r = Some d \<and> set (map fst d) = {''raw_analysis'', ''model_used''} \<and>
                   distinct (map fst d)))))"
  by (auto simp add: analyze_eq dest!: extract_analysis_keys split: outcome.splits sum.splits)

text \<open>A response with an empty content list: the IndexError is caught, None is returned.\<close>

theorem C10_witness:
  "fst (analyze_system_prompt_influence service_empty \<lparr>client = \<lparr>api_key = Some ''valid-key''\<rparr>\<rparr>
          ''You are a helpful assistant.'' ''User: Hi'' True fresh) = Inr None"
  using C10_only_base_exceptions_escape [where svc = service_empty and w = fresh
      and self = "\<lparr>client = \<lparr>api_key = Some ''valid-key''\<rparr>\<rparr>"
      and system_prompt = "''You are a helpful assistant.''" and conversation_log = "''User: Hi''"
      and verbose = True]
  by (simp add: run_defs service_empty_def)

text \<open>
  Claim C6. When the network call raises an exception (an instance of \<^verbatim>\<open>Exception\<close>:
  a rejected credential, a network fault, a response that does not validate), the
  method returns None, exactly one call was issued (no retry, no other model), and one
  error message was displayed, which ends with the text of the exception.
\<close>

theorem C6_service_failure:
  assumes "svc (length (calls w)) (client self)
             (kwargs (analysis_prompt system_prompt conversation_log)) = Raises e"
  shows "analyze_system_prompt_influence svc self system_prompt conversation_log verbose w =
           (Inr None,
            w\<lparr>calls := calls w @
                  [(client self, kwargs (analysis_prompt system_prompt conversation_log))],
              ui := ui w @ [Error (''Error in analysis: '' @ exc_str e)]\<rparr>) \<and>
         sublist (exc_str e) (''Error in analysis: '' @ exc_str e)"
proof
  show "analyze_system_prompt_influence svc self system_prompt conversation_log verbose w =
           (Inr None,
            w\<lparr>calls := calls w @
                  [(client self, kwargs (analysis_prompt system_prompt conversation_log))],
              ui := ui w @ [Error (''Error in analysis: '' @ exc_str e)]\<rparr>)"
    using assms by (simp add: analyze_eq)
  show "sublist (exc_str e) (''Error in analysis: '' @ exc_str e)"
    by (metis sublist_appendI append_Nil2)
qed

text \<open>A service outage.\<close>

theorem C6_witness:
  "analyze_system_prompt_influence service_down \<lparr>client = \<lparr>api_key = Some ''valid-key''\<rparr>\<rparr>
      ''You are a helpful assistant.'' ''User: Hi'' True fresh =
     (Inr None,
      \<lparr>calls = [(\<lparr>api_key = Some ''valid-key''\<rparr>,
                 kwargs (analysis_prompt ''You are a helpful assistant.'' ''User: Hi''))],
       ui = [Error ''Error in analysis: Connection error.'']\<rparr>)"
  using C6_service_failure [where svc = service_down and w = fresh
      and self = "\<lparr>client = \<lparr>api_key = Some ''valid-key''\<rparr>\<rparr>"
      and system_prompt = "''You are a helpful assistant.''" and conversation_log = "''User: Hi''"
      and e = "PyException ''APIConnectionError'' ''Connection error.''" and verbose = True]
  by (simp add: service_down_def fresh_def)

text \<open>
  Claim C8. Two invocations of the requester with the same inputs issue two network
  calls with the same request, whatever happened in the first. Each result comes from
  the service's answer to its own call: the second result is what a single invocation
  returns when the service gives its answer to the second call, so nothing is reused.
\<close>

theorem C8_independent_calls:
  "(case analyze_system_prompt_influence svc self system_prompt conversation_log verbose w of
      (r1, w1) \<Rightarrow>
        (case analyze_system_prompt_influence svc self system_prompt conversation_log verbose w1 of
           (r2, w2) \<Rightarrow>
             calls w2 = calls w @
               [(client self, kwargs (analysis_prompt system_prompt conversation_log)),
                (client self, kwargs (analysis_prompt system_prompt conversation_log))] \<and>
             r1 = fst (analyze_system_prompt_influence (\<lambda>n. svc (length (calls w))) self
                         system_prompt conversation_log verbose w) \<and>
             r2 = fst (analyze_system_prompt_influence (\<lambda>n. svc (Suc (length (calls w)))) self
                         system_prompt conversation_log verbose w)))"
  by (auto simp add: analyze_eq split: outcome.splits sum.splits prod.splits)

text \<open>A service whose answer changes: the two results differ.\<close>

theorem C8_witness:
  "(case analyze_system_prompt_influence service_changing \<lparr>client = \<lparr>api_key = Some ''valid-key''\<rparr>\<rparr>
           ''You are a helpful assistant.'' ''User: Hi'' True fresh of
      (r1, w1) \<Rightarrow>
        (case analyze_system_prompt_influence service_changing
                \<lparr>client = \<lparr>api_key = Some ''valid-key''\<rparr>\<rparr>
                ''You are a helpful assistant.'' ''User: Hi'' True w1 of
           (r2, w2) \<Rightarrow>
             length (calls w2) = 2 \<and>
             r1 = Inr (Some [(''raw_analysis'', ''first''), (''model_used'', ''m'')]) \<and>
             r2 = Inr (Some [(''raw_analysis'', ''second''), (''model_used'', ''m'')])))"
  using C8_independent_calls [where svc = service_changing and w = fresh
      and self = "\<lparr>client = \<lparr>api_key = Some ''valid-key''\<rparr>\<rparr>"
      and system_prompt = "''You are a helpful assistant.''" and conversation_log = "''User: Hi''"
      and verbose = True]
  by (simp add: run_defs service_changing_def split: prod.splits)

section \<open>Properties of the form\<close>

text \<open>
  Claim C2. When the button is clicked with both files uploaded and decoded and a
  credential in the field, and the service answers the call with a response whose first
  block is a text block, the page shows that text unchanged in the results text area and
  the line \<^verbatim>\<open>Model Used: \<close> followed by the model name of the response, unchanged.
\<close>

theorem C2_results_shown_verbatim:
  assumes "button f"
    and "system_prompt_file f = Some (UploadedFile (Inr system_prompt))"
    and "conversation_log_file f = Some (UploadedFile (Inr conversation_log))"
    and "api_key_field f \<noteq> []"
    and "svc (length (calls w)) \<lparr>api_key = Some (api_key_field f)\<rparr>
           (kwargs (analysis_prompt system_prompt conversation_log)) = Returns r"
    and "resp_content r = TextBlock generated # blocks"
  shows "fst (main svc env f w) = None \<and>
    ui (snd (main svc env f w)) = ui w @
     [Title ''System Prompt Influence Analyzer'',
      SidebarHeader ''Anthropic API Configuration'',
      Header ''Upload Files'',
      Info ''Analyzing system prompt influence... This may take a few moments.'',
      Header ''Analysis Results'',
      Subheader ''Raw Analysis'',
      TextArea ''System Prompt Influence Analysis'' generated 400,
      Subheader ''Model Information'',
      Write (''Model Used: '' @ resp_model r),
      SidebarMarkdown instructions]"
proof -
  let ?w3 = "w\<lparr>ui := ui w @
        [Title ''System Prompt Influence Analyzer'', SidebarHeader ''Anthropic API Configuration'',
         Header ''Upload Files'']\<rparr>"
  have call: "svc (length (calls ?w3)) \<lparr>api_key = Some (api_key_field f)\<rparr>
           (kwargs (analysis_prompt system_prompt conversation_log)) = Returns r"
    using assms(5) by simp
  have run: "perform_analysis svc env (api_key_field f) system_prompt conversation_log ?w3 =
     (Normal (), ?w3\<lparr>calls := calls ?w3 @
                  [(\<lparr>api_key = Some (api_key_field f)\<rparr>,
                    kwargs (analysis_prompt system_prompt conversation_log))],
               ui := ui ?w3 @
                 [Info ''Analyzing system prompt influence... This may take a few moments.'',
                  Header ''Analysis Results'', Subheader ''Raw Analysis'',
                  TextArea ''System Prompt Influence Analysis'' generated 400,
                  Subheader ''Model Information'',
                  Write (''Model Used: '' @ resp_model r)]\<rparr>)"
    using assms(4) call assms(6) by (rule perform_analysis_text)
  have "main svc env f w = (None, (snd (perform_analysis svc env (api_key_field f) system_prompt
           conversation_log ?w3))\<lparr>ui := ui (snd (perform_analysis svc env (api_key_field f)
           system_prompt conversation_log ?w3)) @ [SidebarMarkdown instructions]\<rparr>)"
    using assms(1-3) read_files_decoded assms(4) by (rule main_analysis) (simp add: run)
  then show ?thesis by (simp add: run)
qed

text \<open>The example scenario of the specification, with the service up.\<close>

theorem C2_witness:
  "ui (snd (main service_up env_unset
        \<lparr>api_key_field = ''valid-key'',
         system_prompt_file = Some (UploadedFile (Inr ''You are a helpful assistant.'')),
         conversation_log_file = Some (UploadedFile (Inr ''User: Hi'')),
         button = True\<rparr> fresh)) =
     [Title ''System Prompt Influence Analyzer'',
      SidebarHeader ''Anthropic API Configuration'',
      Header ''Upload Files'',
      Info ''Analyzing system prompt influence... This may take a few moments.'',
      Header ''Analysis Results'',
      Subheader ''Raw Analysis'',
      TextArea ''System Prompt Influence Analysis'' ''Response 1: no influence found.'' 400,
      Subheader ''Model Information'',
      Write ''Model Used: claude-3-opus-20240229'',
      SidebarMarkdown instructions]"
  using C2_results_shown_verbatim [where svc = service_up and env = env_unset and w = fresh
      and f = "\<lparr>api_key_field = ''valid-key'',
         system_prompt_file = Some (UploadedFile (Inr ''You are a helpful assistant.'')),
         conversation_log_file = Some (UploadedFile (Inr ''User: Hi'')),
         button = True\<rparr>"
      and system_prompt = "''You are a helpful assistant.''" and conversation_log = "''User: Hi''"
      and r = "\<lparr>resp_content = [TextBlock ''Response 1: no influence found.''],
              resp_model = ''claude-3-opus-20240229''\<rparr>"
      and generated = "''Response 1: no influence found.''" and blocks = "[]"]
  by (simp add: service_up_def fresh_def)

text \<open>
  Claim C3 says that no result is produced when a decoded input text is empty. The
  script never looks at the decoded texts: with two empty files and a credential, the
  requester returns a result and the page shows it.
\<close>

theorem C3_counterexample:
  "ui (snd (main service_up env_unset
        \<lparr>api_key_field = ''valid-key'',
         system_prompt_file = Some (UploadedFile (Inr '''')),
         conversation_log_file = Some (UploadedFile (Inr '''')),
         button = True\<rparr> fresh)) =
     [Title ''System Prompt Influence Analyzer'',
      SidebarHeader ''Anthropic API Configuration'',
      Header ''Upload Files'',
      Info ''Analyzing system prompt influence... This may take a few moments.'',
      Header ''Analysis Results'',
      Subheader ''Raw Analysis'',
      TextArea ''System Prompt Influence Analysis'' ''Response 1: no influence found.'' 400,
      Subheader ''Model Information'',
      Write ''Model Used: claude-3-opus-20240229'',
      SidebarMarkdown instructions] \<and>
   fst (analyze_system_prompt_influence service_up \<lparr>client = \<lparr>api_key = Some ''valid-key''\<rparr>\<rparr>
          '''' '''' True fresh) =
     Inr (Some [(''raw_analysis'', ''Response 1: no influence found.''),
                (''model_used'', ''claude-3-opus-20240229'')])"
  by (simp add: run_defs service_up_def)

text \<open>
  Claim C3, amended. A run of the script shows a result (a results text area) only if
  the button was clicked, both files were uploaded and decoded, and the credential
  field is not empty. The decoded texts may be empty.
\<close>

theorem C3_result_requires_uploads_and_key:
  assumes "TextArea label val height \<in> set (drop (length (ui w)) (ui (snd (main svc env f w))))"
  shows "button f \<and>
         (\<exists>system_prompt conversation_log.
            system_prompt_file f = Some (UploadedFile (Inr system_prompt)) \<and>
            conversation_log_file f = Some (UploadedFile (Inr conversation_log))) \<and>
         api_key_field f \<noteq> []"
proof -
  have b: "button f"
    using assms by (cases "button f") (simp_all add: main_not_clicked)
  have present: "system_prompt_file f \<noteq> None \<and> conversation_log_file f \<noteq> None"
  proof (rule ccontr)
    assume "\<not> ?thesis"
    then have "system_prompt_file f = None \<or> conversation_log_file f = None" by blast
    from main_missing_upload [OF b this] assms show False by simp
  qed
  then obtain spf clf where
    files: "system_prompt_file f = Some spf" "conversation_log_file f = Some clf" by auto
  have "\<exists>sp cl. read_files spf clf = Inr (sp, cl)"
  proof (cases "read_files spf clf")
    case (Inl e)
    from main_decode_error [OF b files Inl] assms show ?thesis by simp
  next
    case (Inr p)
    then show ?thesis by (cases p) simp
  qed
  then obtain sp cl where rd: "read_files spf clf = Inr (sp, cl)" by blast
  have key: "api_key_field f \<noteq> []"
  proof
    assume "api_key_field f = []"
    from main_blank_key [OF b files rd this] assms show False by simp
  qed
  from rd files have "system_prompt_file f = Some (UploadedFile (Inr sp)) \<and>
      conversation_log_file f = Some (UploadedFile (Inr cl))"
    by (simp add: read_files_Inr)
  with b key show ?thesis by blast
qed

text \<open>A run that shows a result, with an empty system prompt.\<close>

theorem C3_witness:
  "TextArea ''System Prompt Influence Analysis'' ''Response 1: no influence found.'' 400
     \<in> set (drop (length (ui fresh)) (ui (snd (main service_up env_unset
        \<lparr>api_key_field = ''valid-key'',
         system_prompt_file = Some (UploadedFile (Inr '''')),
         conversation_log_file = Some (UploadedFile (Inr ''User: Hi'')),
         button = True\<rparr> fresh)))) \<and>
   api_key_field \<lparr>api_key_field = ''valid-key'',
         system_prompt_file = Some (UploadedFile (Inr '''')),
         conversation_log_file = Some (UploadedFile (Inr ''User: Hi'')),
         button = True\<rparr> \<noteq> []"
proof -
  have h: "TextArea ''System Prompt Influence Analysis'' ''Response 1: no influence found.'' 400
     \<in> set (drop (length (ui fresh)) (ui (snd (main service_up env_unset
        \<lparr>api_key_field = ''valid-key'',
         system_prompt_file = Some (UploadedFile (Inr '''')),
         conversation_log_file = Some (UploadedFile (Inr ''User: Hi'')),
         button = True\<rparr> fresh))))"
    by (simp add: run_defs service_up_def)
  from C3_result_requires_uploads_and_key [OF h] h show ?thesis by blast
qed

text \<open>
  Claim C4 says that a blank credential field with a credential in the environment
  leads to the network call. The script tests the field alone: it warns and returns,
  with no call, although the environment sets the variable.
\<close>

theorem C4_counterexample:
  "main service_up env_set
        \<lparr>api_key_field = '''',
         system_prompt_file = Some (UploadedFile (Inr ''You are a helpful assistant.'')),
         conversation_log_file = Some (UploadedFile (Inr ''User: Hi'')),
         button = True\<rparr> fresh =
     (None,
      \<lparr>calls = [],
       ui = [Title ''System Prompt Influence Analyzer'',
             SidebarHeader ''Anthropic API Configuration'',
             Header ''Upload Files'',
             Warning ''Please enter your Anthropic API Key in the sidebar.'']\<rparr>)"
  by (simp add: run_defs)

text \<open>
  Claim C4, amended. With both files uploaded and decoded, a click leads to the network
  call exactly when the credential field is not empty, and the call then carries the
  credential of the field; when the field is blank the warning is shown and no call is
  made. The environment plays no part in either case.
\<close>

theorem C4_field_decides_call:
  assumes "button f"
    and "system_prompt_file f = Some (UploadedFile (Inr system_prompt))"
    and "conversation_log_file f = Some (UploadedFile (Inr conversation_log))"
  shows "calls (snd (main svc env f w)) =
           (if api_key_field f = [] then calls w
            else calls w @ [(\<lparr>api_key = Some (api_key_field f)\<rparr>,
                             kwargs (analysis_prompt system_prompt conversation_log))]) \<and>
         (Warning ''Please enter your Anthropic API Key in the sidebar.''
            \<in> set (drop (length (ui w)) (ui (snd (main svc env f w))))) =
           (api_key_field f = [])"
proof (cases "api_key_field f = []")
  case True
  from main_blank_key [OF assms read_files_decoded True] True show ?thesis by simp
next
  case False
  from main_analysis_shape [OF assms False, of svc env w] False show ?thesis by auto
qed

text \<open>With the variable set: a blank field gives no call, a filled field gives one call.\<close>

theorem C4_witness:
  "calls (snd (main service_up env_set
        \<lparr>api_key_field = '''',
         system_prompt_file = Some (UploadedFile (Inr ''You are a helpful assistant.'')),
         conversation_log_file = Some (UploadedFile (Inr ''User: Hi'')),
         button = True\<rparr> fresh)) = [] \<and>
   calls (snd (main service_up env_set
        \<lparr>api_key_field = ''valid-key'',
         system_prompt_file = Some (UploadedFile (Inr ''You are a helpful assistant.'')),
         conversation_log_file = Some (UploadedFile (Inr ''User: Hi'')),
         button = True\<rparr> fresh)) =
     [(\<lparr>api_key = Some ''valid-key''\<rparr>,
       kwargs (analysis_prompt ''You are a helpful assistant.'' ''User: Hi''))]"
  using C4_field_decides_call [where svc = service_up
      and env = env_set and w = fresh
      and f = "\<lparr>api_key_field = '''',
         system_prompt_file = Some (UploadedFile (Inr ''You are a helpful assistant.'')),
         conversation_log_file = Some (UploadedFile (Inr ''User: Hi'')),
         button = True\<rparr>"
      and system_prompt = "''You are a helpful assistant.''" and conversation_log = "''User: Hi''"]
    C4_field_decides_call [where svc = service_up
      and env = env_set and w = fresh
      and f = "\<lparr>api_key_field = ''valid-key'',
         system_prompt_file = Some (UploadedFile (Inr ''You are a helpful assistant.'')),
         conversation_log_file = Some (UploadedFile (Inr ''User: Hi'')),
         button = True\<rparr>"
      and system_prompt = "''You are a helpful assistant.''" and conversation_log = "''User: Hi''"]
  by (simp add: fresh_def)

text \<open>
  Claim C5. When the button is clicked and an upload is absent, or decoding an uploaded
  file raises, the run ends after one warning or error message and no network call is
  made.
\<close>

theorem C5_bad_upload_aborts:
  assumes "button f"
    and "system_prompt_file f = None \<or> conversation_log_file f = None \<or>
         (\<exists>u e. (system_prompt_file f = Some u \<or> conversation_log_file f = Some u) \<and>
                 decoded u = Inl e)"
  shows "fst (main svc env f w) = None \<and>
         calls (snd (main svc env f w)) = calls w \<and>
         (\<exists>m. ui (snd (main svc env f w)) = ui w @
                 [Title ''System Prompt Influence Analyzer'',
                  SidebarHeader ''Anthropic API Configuration'',
                  Header ''Upload Files'', Warning m] \<or>
               ui (snd (main svc env f w)) = ui w @
                 [Title ''System Prompt Influence Analyzer'',
                  SidebarHeader ''Anthropic API Configuration'',
                  Header ''Upload Files'', Error m])"
proof (cases "system_prompt_file f = None \<or> conversation_log_file f = None")
  case True
  from main_missing_upload [OF assms(1) True] show ?thesis by simp
next
  case False
  then obtain spf clf where
    files: "system_prompt_file f = Some spf" "conversation_log_file f = Some clf" by auto
  with assms(2) have "\<exists>e. decoded spf = Inl e \<or> decoded clf = Inl e" by auto
  then have "\<exists>e. read_files spf clf = Inl e"
    by (auto simp: read_files_def split: sum.splits)
  then obtain e where "read_files spf clf = Inl e" ..
  from main_decode_error [OF assms(1) files this] show ?thesis by simp
qed

text \<open>A missing conversation log, and a conversation log that is not UTF-8.\<close>

theorem C5_witness:
  "main service_up env_unset
        \<lparr>api_key_field = ''valid-key'',
         system_prompt_file = Some (UploadedFile (Inr ''You are a helpful assistant.'')),
         conversation_log_file = None,
         button = True\<rparr> fresh =
     (None,
      \<lparr>calls = [],
       ui = [Title ''System Prompt Influence Analyzer'',
             SidebarHeader ''Anthropic API Configuration'',
             Header ''Upload Files'',
             Warning ''Please upload both system prompt and conversation log files.'']\<rparr>) \<and>
   calls (snd (main service_up env_unset
        \<lparr>api_key_field = ''valid-key'',
         system_prompt_file = Some (UploadedFile (Inr ''You are a helpful assistant.'')),
         conversation_log_file = Some undecodable,
         button = True\<rparr> fresh)) = []"
proof -
  let ?f = "\<lparr>api_key_field = ''valid-key'',
         system_prompt_file = Some (UploadedFile (Inr ''You are a helpful assistant.'')),
         conversation_log_file = Some undecodable,
         button = True\<rparr>"
  have b: "button ?f" by simp
  have "conversation_log_file ?f = Some undecodable \<and>
        decoded undecodable = Inl (PyException ''UnicodeDecodeError''
          ([CHR 0x27] @ ''utf-8'' @ [CHR 0x27] @
           '' codec can't decode byte 0xff in position 0: invalid start byte''))"
    by (simp add: undecodable_def)
  then have h: "system_prompt_file ?f = None \<or> conversation_log_file ?f = None \<or>
         (\<exists>u e. (system_prompt_file ?f = Some u \<or> conversation_log_file ?f = Some u) \<and>
                 decoded u = Inl e)"
    by blast
  from C5_bad_upload_aborts [OF b h, of service_up env_unset fresh]
  have "calls (snd (main service_up env_unset ?f fresh)) = []"
    by (simp add: fresh_def)
  then show ?thesis by (simp add: run_defs)
qed

end
